theory Spec2Isabelle
  imports Main "HOL-Library.Word"
begin

unbundle bit_operations_syntax

section \<open>The microcontroller state\<close>

text \<open>
  The sketch \<^verbatim>\<open>arduinoSketch.ino\<close> is C with inline AVR assembly: what it does is what its
  instructions do to the registers and the data space of the microcontroller. The state
  below holds the parts of the machine that the sketch names: the 32 general purpose
  registers (the pointer register X is the pair r27:r26), the data space (the I/O
  registers live in it, from address 0x20 on, and so does the SRAM), the stack that
  \<^verbatim>\<open>push\<close> and \<^verbatim>\<open>pop\<close> use (kept as a list of its own, apart from the data
  space), the serial receive buffer that \<^verbatim>\<open>Serial.available\<close> and
  \<^verbatim>\<open>Serial.read\<close> look at, the global \<^verbatim>\<open>_receivedByte\<close>, the baud rate given to
  \<^verbatim>\<open>Serial.begin\<close> and the time spent in \<^verbatim>\<open>delay\<close>. The history of what an outside
  observer can see (every store to the data space, every \<^verbatim>\<open>cli\<close> and \<^verbatim>\<open>sei\<close>) is kept
  in \<open>events\<close>, oldest first.
\<close>

type_synonym byte = "8 word"
type_synonym addr = "16 word"
type_synonym reg = nat

datatype event = Cli | Sei | Store addr byte

record mcu =
  regs :: "reg \<Rightarrow> byte"
  mem :: "addr \<Rightarrow> byte"
  stack :: "byte list"
  events :: "event list"
  rx :: "byte list"
  receivedByte :: byte
  baud :: "nat option"
  millis :: nat

subsection \<open>Device constants\<close>

text \<open>
  The sketch includes \<^verbatim>\<open>avr/io.h\<close>, which is part of the toolchain and not of the
  repository. The addresses and bit numbers are those of the ATmega328P header (the
  device of the Arduino Uno): data-space addresses for the registers, and
  \<^verbatim>\<open>_SFR_IO_ADDR\<close>, which subtracts the offset 0x20 of the I/O space.
\<close>

definition DDRB :: addr where "DDRB = 0x24"
definition PORTB :: addr where "PORTB = 0x25"
definition DDRD :: addr where "DDRD = 0x2A"
definition EIMSK :: addr where "EIMSK = 0x3D"
definition SREG :: addr where "SREG = 0x5F"
definition EICRA :: addr where "EICRA = 0x69"
definition UCSR0A :: addr where "UCSR0A = 0xC0"
definition UDR0 :: addr where "UDR0 = 0xC6"
definition DDD2 :: nat where "DDD2 = 2"
definition UDRE0 :: nat where "UDRE0 = 5"

definition SFR_IO_ADDR :: "addr \<Rightarrow> addr" where
  "SFR_IO_ADDR sfr = sfr - 0x20"

subsection \<open>Instructions\<close>

text \<open>A store to the data space changes the cell and is seen by the observer.\<close>

definition store :: "addr \<Rightarrow> byte \<Rightarrow> mcu \<Rightarrow> mcu" where
  "store a v s = s\<lparr>mem := (mem s)(a := v), events := events s @ [Store a v]\<rparr>"

definition ldi :: "reg \<Rightarrow> byte \<Rightarrow> mcu \<Rightarrow> mcu" where
  "ldi r k s = s\<lparr>regs := (regs s)(r := k)\<rparr>"

text \<open>\<^verbatim>\<open>out A, r\<close> writes register r to the I/O register A, at data address A + 0x20.\<close>

definition out :: "addr \<Rightarrow> reg \<Rightarrow> mcu \<Rightarrow> mcu" where
  "out A r s = store (A + 0x20) (regs s r) s"

text \<open>\<^verbatim>\<open>cbi A, b\<close> clears bit b of the I/O register A.\<close>

definition cbi :: "addr \<Rightarrow> nat \<Rightarrow> mcu \<Rightarrow> mcu" where
  "cbi A b s = store (A + 0x20) (unset_bit b (mem s (A + 0x20))) s"

text \<open>\<^verbatim>\<open>sts k, r\<close>, the store that the compiler emits for an assignment to a register
  of the extended I/O space.\<close>

definition sts :: "addr \<Rightarrow> reg \<Rightarrow> mcu \<Rightarrow> mcu" where
  "sts a r s = store a (regs s r) s"

text \<open>A load of a register of the data space into a general purpose register
  (\<^verbatim>\<open>in\<close> or \<^verbatim>\<open>lds\<close>).\<close>

definition lds :: "reg \<Rightarrow> addr \<Rightarrow> mcu \<Rightarrow> mcu" where
  "lds r a s = s\<lparr>regs := (regs s)(r := mem s a)\<rparr>"

text \<open>The global interrupt flag is bit 7 of SREG.\<close>

definition iflag :: "mcu \<Rightarrow> bool" where
  "iflag s = bit (mem s SREG) 7"

definition cli :: "mcu \<Rightarrow> mcu" where
  "cli s = s\<lparr>mem := (mem s)(SREG := unset_bit 7 (mem s SREG)), events := events s @ [Cli]\<rparr>"

definition sei :: "mcu \<Rightarrow> mcu" where
  "sei s = s\<lparr>mem := (mem s)(SREG := set_bit 7 (mem s SREG)), events := events s @ [Sei]\<rparr>"

definition push :: "reg \<Rightarrow> mcu \<Rightarrow> mcu" where
  "push r s = s\<lparr>stack := regs s r # stack s\<rparr>"

text \<open>\<^verbatim>\<open>pop\<close> takes the top of the stack; on an empty stack the model leaves the register
  as it is (the handler's \<^verbatim>\<open>pop\<close> always follows its \<^verbatim>\<open>push\<close>).\<close>

definition pop :: "reg \<Rightarrow> mcu \<Rightarrow> mcu" where
  "pop r s = (case stack s of [] \<Rightarrow> s
              | v # st \<Rightarrow> s\<lparr>regs := (regs s)(r := v), stack := st\<rparr>)"

text \<open>The pointer register X is r27:r26.\<close>

definition X :: "mcu \<Rightarrow> addr" where
  "X s = ucast (regs s 27) * 0x100 + ucast (regs s 26)"

definition st_X :: "reg \<Rightarrow> mcu \<Rightarrow> mcu" where
  "st_X r s = store (X s) (regs s r) s"

definition ld_X :: "reg \<Rightarrow> mcu \<Rightarrow> mcu" where
  "ld_X r s = s\<lparr>regs := (regs s)(r := mem s (X s))\<rparr>"

subsection \<open>What the observer sees\<close>

fun writes_to :: "addr \<Rightarrow> event list \<Rightarrow> byte list" where
  "writes_to a [] = []"
| "writes_to a (Store a' v # es) = (if a' = a then v # writes_to a es else writes_to a es)"
| "writes_to a (Cli # es) = writes_to a es"
| "writes_to a (Sei # es) = writes_to a es"

section \<open>The Color Renderer\<close>

text \<open>
  \<^verbatim>\<open>setLEDSequence\<close> is two pieces of assembly: the switch loads one of four constants
  into r16, and the statement after the switch writes r16 to PORTB.
\<close>

definition setLEDSequence_switch :: "16 word \<Rightarrow> mcu \<Rightarrow> mcu" where
  "setLEDSequence_switch ledPin s =
     (if ledPin = 1 then ldi 16 0x0d s
      else if ledPin = 2 then ldi 16 0x0b s
      else if ledPin = 3 then ldi 16 0x07 s
      else ldi 16 0x0e s)"

definition setLEDSequence_out :: "mcu \<Rightarrow> mcu" where
  "setLEDSequence_out s = out (SFR_IO_ADDR PORTB) 16 s"

definition setLEDSequence :: "16 word \<Rightarrow> mcu \<Rightarrow> mcu" where
  "setLEDSequence ledPin s = setLEDSequence_out (setLEDSequence_switch ledPin s)"

text \<open>
  \<^verbatim>\<open>lightLED\<close> switches on a \<^verbatim>\<open>char\<close>, which avr-gcc reads as a signed byte and promotes
  to \<^verbatim>\<open>int\<close> for the comparison with the character constants.
\<close>

definition lightLED :: "byte \<Rightarrow> mcu \<Rightarrow> mcu" where
  "lightLED code s =
     (let c = sint code in
      if c = of_char (CHR ''r'') then setLEDSequence 1 s
      else if c = of_char (CHR ''g'') then setLEDSequence 2 s
      else if c = of_char (CHR ''b'') then setLEDSequence 3 s
      else setLEDSequence 0 s)"

section \<open>The foreground: serial input, the polling loop, startup\<close>

text \<open>
  \<^verbatim>\<open>Serial\<close> and \<^verbatim>\<open>delay\<close> belong to the Arduino core, outside the repository. The model
  keeps what the sketch uses of them: the receive buffer is a queue of bytes,
  \<^verbatim>\<open>Serial.available\<close> is its length, \<^verbatim>\<open>Serial.read\<close> takes its first byte (or returns
  -1 when there is none), \<^verbatim>\<open>Serial.begin\<close> records the baud rate, and \<^verbatim>\<open>delay\<close> lets
  time pass. None of them writes PORTB or UDR0.
\<close>

definition Serial_available :: "mcu \<Rightarrow> int" where
  "Serial_available s = int (length (rx s))"

definition Serial_read :: "mcu \<Rightarrow> int \<times> mcu" where
  "Serial_read s = (case rx s of [] \<Rightarrow> (- 1, s) | b # bs \<Rightarrow> (uint b, s\<lparr>rx := bs\<rparr>))"

definition Serial_begin :: "nat \<Rightarrow> mcu \<Rightarrow> mcu" where
  "Serial_begin n s = s\<lparr>baud := Some n\<rparr>"

definition delay :: "nat \<Rightarrow> mcu \<Rightarrow> mcu" where
  "delay ms s = s\<lparr>millis := millis s + ms\<rparr>"

text \<open>One pass of \<^verbatim>\<open>loop\<close>. The \<^verbatim>\<open>int\<close> that \<^verbatim>\<open>Serial.read\<close> returns is cut to the
  \<^verbatim>\<open>char\<close> \<^verbatim>\<open>_receivedByte\<close>.\<close>

definition loop :: "mcu \<Rightarrow> mcu" where
  "loop s =
     (if Serial_available s > 0 then
        (let (r, s1) = Serial_read s;
             s2 = s1\<lparr>receivedByte := word_of_int r\<rparr>
         in lightLED (receivedByte s2) s2)
      else s)"

definition ledTest :: "mcu \<Rightarrow> mcu" where
  "ledTest s =
     (let s = delay 1000 s;
          s = setLEDSequence 1 s;
          s = delay 1000 s;
          s = setLEDSequence 2 s;
          s = delay 1000 s;
          s = setLEDSequence 3 s;
          s = delay 1000 s
      in setLEDSequence 0 s)"

definition setup_sketch :: "mcu \<Rightarrow> mcu" where
  "setup_sketch s =
     (let s = ldi 18 0x0f s;
          s = out (SFR_IO_ADDR DDRB) 18 s;
          s = cbi (SFR_IO_ADDR DDRD) DDD2 s;
          s = store EICRA (mem s EICRA OR 0x01) s;
          s = store EIMSK (mem s EIMSK OR 0x01) s;
          s = sei s;
          s = ledTest s
      in Serial_begin 9600 s)"

section \<open>The Edge Notifier\<close>

text \<open>
  The handler's assembly has three input operands: \<^verbatim>\<open>%0\<close>, a register holding the
  value read from SREG, \<^verbatim>\<open>%1\<close>, a register holding the number
  \<^verbatim>\<open>_SFR_IO_ADDR(UCSR0A)\<close>, and the constant \<^verbatim>\<open>UDRE0\<close>. Which registers hold the first
  two is the compiler's choice, so they are parameters \<open>op0\<close> and \<open>op1\<close> here; the
  compiler fills them before the assembly runs. The second operand is a 16-bit number
  and \<^verbatim>\<open>%1\<close> names the register with its low byte.

  The loop at the label \<^verbatim>\<open>USART_Transmit\<close> is, instruction by instruction:
  \<^verbatim>\<open>st X, %1\<close> stores the operand register to the cell X points to, \<^verbatim>\<open>ld r16, X\<close> loads
  that cell into r16, \<^verbatim>\<open>sbrs r16, UDRE0\<close> skips the jump back when bit \<^verbatim>\<open>UDRE0\<close> of r16
  is set. The loop has no counter: it is a partial function, and \<open>None\<close> is the handler
  that never returns.

  After the assembly comes the C statement \<^verbatim>\<open>UDR0 = val\<close>, with \<^verbatim>\<open>val\<close> bound to r17.
  The entry and exit code that the compiler generates for a handler (and the hardware's
  clearing and setting of the interrupt flag around it) is not in the source and not in
  the model.
\<close>

partial_function (option) USART_Transmit :: "reg \<Rightarrow> mcu \<Rightarrow> mcu option" where
  "USART_Transmit op1 s =
     (let s1 = st_X op1 s;
          s2 = ld_X 16 s1
      in if bit (regs s2 16) UDRE0 then Some s2 else USART_Transmit op1 s2)"

declare USART_Transmit.simps [code]

definition ISR_INT0 :: "reg \<Rightarrow> reg \<Rightarrow> mcu \<Rightarrow> mcu option" where
  "ISR_INT0 op0 op1 s =
     (let s = lds op0 SREG s;
          s = ldi op1 (ucast (SFR_IO_ADDR UCSR0A)) s;
          s = cli s;
          s = push op0 s
      in case USART_Transmit op1 s of
           None \<Rightarrow> None
         | Some s \<Rightarrow>
             (let s = ldi 17 0x43 s;
                  s = pop op0 s;
                  s = sei s
              in Some (sts UDR0 17 s)))"

text \<open>
  What one run of the handler adds to the history, \<open>None\<close> if it never returns.
\<close>

definition handler_events :: "reg \<Rightarrow> reg \<Rightarrow> mcu \<Rightarrow> event list option" where
  "handler_events op0 op1 s =
     (case ISR_INT0 op0 op1 s of
        None \<Rightarrow> None
      | Some s' \<Rightarrow> Some (drop (length (events s)) (events s')))"

text \<open>
  What one run of the handler puts on the serial line. The transmitter of the device
  takes a byte stored to UDR0 only while the flag UDRE0 of UCSR0A is set (the handler's
  own comment: UDRE0 set, "ie: UDR0 register is ready to transmit"); the ATmega328P
  ignores a store to UDR0 made while the flag is clear, which is why the reference code
  in the source's comment waits for the flag. The handler never stores to UCSR0A when X
  points elsewhere, so the flag it returns with is the flag its stores to UDR0 met.
\<close>

definition handler_transmits :: "reg \<Rightarrow> reg \<Rightarrow> mcu \<Rightarrow> byte list option" where
  "handler_transmits op0 op1 s =
     (case ISR_INT0 op0 op1 s of
        None \<Rightarrow> None
      | Some s' \<Rightarrow>
          Some (if bit (mem s' UCSR0A) UDRE0
                then writes_to UDR0 (drop (length (events s)) (events s'))
                else []))"

text \<open>\<open>n\<close> edges on the input pin, each handled before the next arrives.\<close>

fun edges :: "reg \<Rightarrow> reg \<Rightarrow> nat \<Rightarrow> mcu \<Rightarrow> mcu option" where
  "edges op0 op1 0 s = Some s"
| "edges op0 op1 (Suc n) s =
     (case ISR_INT0 op0 op1 s of None \<Rightarrow> None | Some s' \<Rightarrow> edges op0 op1 n s')"

text \<open>
  The handler's assembly names r16, r17 and X (r27:r26) in its text. The compiler
  does not see these names; the theorems about the handler are for a compiler that
  puts the two input operands into two other registers, as avr-gcc does (it takes
  them from r18 to r25 first).
\<close>

definition operands_ok :: "reg \<Rightarrow> reg \<Rightarrow> bool" where
  "operands_ok op0 op1 =
     (op0 \<noteq> op1 \<and> op0 < 32 \<and> op1 < 32 \<and> op0 \<notin> {16, 17, 26, 27} \<and> op1 \<notin> {16, 17, 26, 27})"

text \<open>The SRAM of the ATmega328P: 2048 bytes from 0x0100. A store to it has no other
  effect, and a load from it returns what was stored.\<close>

definition sram :: "addr \<Rightarrow> bool" where
  "sram a = (0x0100 \<le> a \<and> a \<le> 0x08FF)"

section \<open>The interrupt between the two statements of setLEDSequence\<close>

text \<open>
  Interrupts are enabled while the foreground runs (\<^verbatim>\<open>sei\<close> in the startup code and at
  the end of the handler), so the handler can run between any two instructions of the
  foreground, and so between the switch of \<^verbatim>\<open>setLEDSequence\<close>, which loads r16, and
  the \<^verbatim>\<open>out\<close> that writes r16 to PORTB. The handler's assembly loads r16 itself; it
  saves and restores \<^verbatim>\<open>%0\<close> only, and it has no clobber list that would tell the
  compiler to save r16 around it. The functions below are \<^verbatim>\<open>setLEDSequence\<close> and
  \<^verbatim>\<open>lightLED\<close> with a handler run at that point.
\<close>

definition setLEDSequence_irq :: "(mcu \<Rightarrow> mcu option) \<Rightarrow> 16 word \<Rightarrow> mcu \<Rightarrow> mcu option" where
  "setLEDSequence_irq handler ledPin s =
     (case handler (setLEDSequence_switch ledPin s) of
        None \<Rightarrow> None
      | Some s' \<Rightarrow> Some (setLEDSequence_out s'))"

definition lightLED_irq :: "(mcu \<Rightarrow> mcu option) \<Rightarrow> byte \<Rightarrow> mcu \<Rightarrow> mcu option" where
  "lightLED_irq handler code s =
     (let c = sint code in
      if c = of_char (CHR ''r'') then setLEDSequence_irq handler 1 s
      else if c = of_char (CHR ''g'') then setLEDSequence_irq handler 2 s
      else if c = of_char (CHR ''b'') then setLEDSequence_irq handler 3 s
      else setLEDSequence_irq handler 0 s)"

section \<open>The specification's words\<close>

text \<open>
  The four Output Patterns of the specification and its mapping table, written from
  the specification, to compare the code with.
\<close>

datatype pattern = RED | GREEN | BLUE | NONE

fun pattern_bits :: "pattern \<Rightarrow> byte" where
  "pattern_bits RED = 0x0D"
| "pattern_bits GREEN = 0x0B"
| "pattern_bits BLUE = 0x07"
| "pattern_bits NONE = 0x0E"

definition spec_pattern :: "byte \<Rightarrow> pattern" where
  "spec_pattern b =
     (if b = of_char (CHR ''r'') then RED
      else if b = of_char (CHR ''g'') then GREEN
      else if b = of_char (CHR ''b'') then BLUE
      else NONE)"

text \<open>A port value with exactly one of the bits 0 to 3 low.\<close>

definition one_led_lit :: "byte \<Rightarrow> bool" where
  "one_led_lit v = (length (filter (\<lambda>i. \<not> bit v i) [0, 1, 2, 3]) = 1)"



section \<open>Concrete machine states\<close>

text \<open>
  A machine whose X register points to the first cell of the SRAM, with the
  transmitter ready (UCSR0A holds 0x20, its value after reset: UDRE0 set), and the
  same machine with the transmitter busy (UDRE0 clear).
\<close>

definition ready_state :: mcu where
  "ready_state =
     \<lparr>regs = (\<lambda>_. 0)(27 := 0x01), mem = (\<lambda>_. 0)(UCSR0A := 0x20), stack = [],
      events = [], rx = [], receivedByte = 0, baud = None, millis = 0\<rparr>"

definition busy_state :: mcu where
  "busy_state = ready_state\<lparr>mem := (\<lambda>_. 0)\<rparr>"

text \<open>
  The handler does not set X before it stores through it: X holds what the interrupted
  code left there. This is the machine with the transmitter ready and with the number
  0x00C6, the address of UDR0, in X.
\<close>

definition udr_state :: mcu where
  "udr_state = ready_state\<lparr>regs := (\<lambda>_. 0)(26 := 0xC6)\<rparr>"

section \<open>Helper lemmas\<close>

lemmas device_defs =
  DDRB_def PORTB_def DDRD_def EIMSK_def SREG_def EICRA_def UCSR0A_def UDR0_def
  DDD2_def UDRE0_def SFR_IO_ADDR_def

lemmas instr_defs =
  st_X_def ld_X_def X_def store_def ldi_def lds_def cli_def sei_def push_def pop_def sts_def
  out_def

lemma writes_to_append: "writes_to a (es @ fs) = writes_to a es @ writes_to a fs"
  by (induction a es rule: writes_to.induct) auto

subsection \<open>The Color Renderer, run without an interrupt\<close>

text \<open>A signed byte promoted to \<^verbatim>\<open>int\<close> equals a character constant exactly when the byte
  is that character.\<close>

lemma sint_byte_eq:
  fixes c :: byte
  assumes "sint (word_of_int k :: byte) = k"
  shows "sint c = k \<longleftrightarrow> c = word_of_int k"
proof
  assume "sint c = k"
  then have "word_of_int (sint c) = (word_of_int k :: byte)" by simp
  then show "c = word_of_int k" by simp
next
  assume "c = word_of_int k"
  with assms show "sint c = k" by simp
qed

lemma char_switch:
  fixes c :: byte
  shows "sint c = 114 \<longleftrightarrow> c = 114"
    and "sint c = 103 \<longleftrightarrow> c = 103"
    and "sint c = 98 \<longleftrightarrow> c = 98"
  using sint_byte_eq[of 114 c] sint_byte_eq[of 103 c] sint_byte_eq[of 98 c] by simp_all

lemma setLEDSequence_out_state:
  "setLEDSequence_out (ldi 16 v s) =
     s\<lparr>regs := (regs s)(16 := v), mem := (mem s)(PORTB := v),
       events := events s @ [Store PORTB v]\<rparr>"
  by (simp add: setLEDSequence_out_def ldi_def out_def store_def SFR_IO_ADDR_def)

lemma setLEDSequence_consts:
  "setLEDSequence 1 s = s\<lparr>regs := (regs s)(16 := 0x0D), mem := (mem s)(PORTB := 0x0D),
      events := events s @ [Store PORTB 0x0D]\<rparr>"
  "setLEDSequence 2 s = s\<lparr>regs := (regs s)(16 := 0x0B), mem := (mem s)(PORTB := 0x0B),
      events := events s @ [Store PORTB 0x0B]\<rparr>"
  "setLEDSequence 3 s = s\<lparr>regs := (regs s)(16 := 0x07), mem := (mem s)(PORTB := 0x07),
      events := events s @ [Store PORTB 0x07]\<rparr>"
  "setLEDSequence 0 s = s\<lparr>regs := (regs s)(16 := 0x0E), mem := (mem s)(PORTB := 0x0E),
      events := events s @ [Store PORTB 0x0E]\<rparr>"
  by (simp_all add: setLEDSequence_def setLEDSequence_switch_def setLEDSequence_out_state)

lemma setLEDSequence_defined:
  "mem (setLEDSequence n s) PORTB \<in> {0x0D, 0x0B, 0x07, 0x0E}"
  by (simp add: setLEDSequence_def setLEDSequence_switch_def setLEDSequence_out_state)

lemma lightLED_spec:
  "lightLED b s = setLEDSequence_out (ldi 16 (pattern_bits (spec_pattern b)) s)"
  by (simp add: lightLED_def Let_def char_switch spec_pattern_def setLEDSequence_def
      setLEDSequence_switch_def)

lemma lightLED_state:
  "lightLED b s =
     s\<lparr>regs := (regs s)(16 := pattern_bits (spec_pattern b)),
       mem := (mem s)(PORTB := pattern_bits (spec_pattern b)),
       events := events s @ [Store PORTB (pattern_bits (spec_pattern b))]\<rparr>"
  by (simp only: lightLED_spec setLEDSequence_out_state)

lemma pattern_bits_one_led_lit: "one_led_lit (pattern_bits p)"
  by (cases p) (simp_all add: one_led_lit_def)

subsection \<open>The polling loop and startup\<close>

lemma loop_state:
  "loop s = (case rx s of [] \<Rightarrow> s
             | b # bs \<Rightarrow> lightLED b (s\<lparr>rx := bs, receivedByte := b\<rparr>))"
  by (simp add: loop_def Serial_available_def Serial_read_def split: list.split)

lemma loop_idle: "rx s = [] \<Longrightarrow> (loop ^^ k) s = s"
  by (induction k) (simp_all add: loop_state)

text \<open>Enough passes of the loop write one pattern per byte of the receive buffer, in the
  buffer's order, and nothing else.\<close>

lemma loop_iter_writes:
  "length (rx s) \<le> n \<Longrightarrow>
   writes_to PORTB (events ((loop ^^ n) s)) =
     writes_to PORTB (events s) @ map (\<lambda>b. pattern_bits (spec_pattern b)) (rx s)"
proof (induction n arbitrary: s)
  case 0
  then show ?case by simp
next
  case (Suc n)
  show ?case
  proof (cases "rx s")
    case Nil
    then have "loop s = s" by (simp add: loop_state)
    with Nil Suc.IH[of s] show ?thesis by (simp add: funpow_swap1)
  next
    case (Cons b bs)
    then have l: "loop s = lightLED b (s\<lparr>rx := bs, receivedByte := b\<rparr>)"
      by (simp add: loop_state)
    have "length (rx (loop s)) \<le> n" using Suc.prems Cons by (simp add: l lightLED_state)
    from Suc.IH[OF this] show ?thesis using Cons
      by (simp add: funpow_swap1 l lightLED_state writes_to_append)
  qed
qed

lemma ledTest_state:
  "ledTest s =
     s\<lparr>regs := (regs s)(16 := 0x0E), mem := (mem s)(PORTB := 0x0E),
       events := events s @
         [Store PORTB 0x0D, Store PORTB 0x0B, Store PORTB 0x07, Store PORTB 0x0E],
       millis := millis s + 4000\<rparr>"
  by (simp add: ledTest_def Let_def setLEDSequence_consts delay_def)

lemma setup_sketch_port:
  "mem (setup_sketch s) PORTB = 0x0E
   \<and> writes_to PORTB (events (setup_sketch s)) =
       writes_to PORTB (events s) @ [0x0D, 0x0B, 0x07, 0x0E]
   \<and> X (setup_sketch s) = X s \<and> rx (setup_sketch s) = rx s"
  by (simp add: setup_sketch_def Let_def ledTest_state Serial_begin_def X_def
      sei_def cbi_def store_def out_def ldi_def writes_to_append device_defs)

subsection \<open>The handler\<close>

text \<open>The loop leaves at its first pass when the bit tested is set in the operand
  register, and never when it is clear: what it tests is the operand it has just stored
  and loaded back, not the content of UCSR0A.\<close>

lemma USART_Transmit_exit:
  "bit (regs s op1) UDRE0 \<Longrightarrow> USART_Transmit op1 s = Some (ld_X 16 (st_X op1 s))"
  by (subst USART_Transmit.simps) (simp add: Let_def st_X_def ld_X_def store_def X_def)

lemma USART_Transmit_returns_only_if:
  assumes ret: "USART_Transmit op1 s = Some t" and op: "op1 \<noteq> 16"
  shows "bit (regs s op1) UDRE0"
proof -
  have "op1 \<noteq> 16 \<longrightarrow> bit (regs s op1) UDRE0"
  proof (rule USART_Transmit.raw_induct
      [OF _ ret, where P = "\<lambda>r s t. r \<noteq> 16 \<longrightarrow> bit (regs s r) UDRE0"])
    fix f r s t
    assume IH: "\<And>r' s' y. f r' s' = Some y \<Longrightarrow> r' \<noteq> 16 \<longrightarrow> bit (regs s' r') UDRE0"
      and body: "(let s1 = st_X r s; s2 = ld_X 16 s1
                  in if bit (regs s2 16) UDRE0 then Some s2 else f r s2) = Some t"
    show "r \<noteq> 16 \<longrightarrow> bit (regs s r) UDRE0"
    proof
      assume r16: "r \<noteq> 16"
      have e: "regs (ld_X 16 (st_X r s)) r = regs s r"
        "regs (ld_X 16 (st_X r s)) 16 = regs s r"
        using r16 by (simp_all add: ld_X_def st_X_def store_def X_def)
      show "bit (regs s r) UDRE0"
      proof (rule ccontr)
        assume n: "\<not> bit (regs s r) UDRE0"
        with body have "f r (ld_X 16 (st_X r s)) = Some t"
          by (simp add: Let_def e)
        from IH[OF this] r16 n show False by (simp add: e)
      qed
    qed
  qed
  with op show ?thesis by simp
qed

lemma USART_Transmit_spins:
  "op1 \<noteq> 16 \<Longrightarrow> \<not> bit (regs s op1) UDRE0 \<Longrightarrow> USART_Transmit op1 s = None"
  using USART_Transmit_returns_only_if by (cases "USART_Transmit op1 s") auto

lemma sram_not_io:
  "sram a \<Longrightarrow> a \<noteq> UDR0 \<and> a \<noteq> PORTB \<and> a \<noteq> SREG \<and> a \<noteq> UCSR0A"
  by (auto simp: sram_def device_defs)

lemma operands_ok_24_18: "operands_ok 24 18"
  by (simp add: operands_ok_def)

lemma ready_state_X: "X ready_state = 0x0100" "sram (X ready_state)"
  by (simp_all add: sram_def X_def ready_state_def)

lemma busy_state_X: "X busy_state = 0x0100" "sram (X busy_state)"
  by (simp_all add: sram_def X_def ready_state_def busy_state_def)

text \<open>The handler returns, and this is what it has done by then.\<close>

lemma ISR_INT0_returns:
  assumes "operands_ok op0 op1" and "sram (X s)"
  shows "\<exists>s'. ISR_INT0 op0 op1 s = Some s'
           \<and> events s' = events s @ [Cli, Store (X s) 0xA0, Sei, Store UDR0 0x43]
           \<and> regs s' 16 = 0xA0 \<and> regs s' 17 = 0x43
           \<and> mem s' PORTB = mem s PORTB \<and> mem s' UCSR0A = mem s UCSR0A
           \<and> mem s' UDR0 = 0x43 \<and> iflag s'
           \<and> stack s' = stack s \<and> rx s' = rx s \<and> X s' = X s"
  using assms sram_not_io[of "X s"]
  apply (simp add: ISR_INT0_def Let_def operands_ok_def)
  apply (subst USART_Transmit_exit)
   apply (simp add: ldi_def lds_def cli_def push_def device_defs)
  apply (simp add: instr_defs iflag_def)
  apply (simp add: device_defs bit_set_bit_iff)
  done

lemma handler_events_eq:
  assumes "operands_ok op0 op1" and "sram (X s)"
  shows "handler_events op0 op1 s = Some [Cli, Store (X s) 0xA0, Sei, Store UDR0 0x43]"
  using ISR_INT0_returns[OF assms] by (auto simp: handler_events_def)

lemma ISR_ignores_UCSR0A:
  assumes "operands_ok op0 op1" and "sram (X s)"
  shows "handler_events op0 op1 (s\<lparr>mem := (mem s)(UCSR0A := v)\<rparr>) = handler_events op0 op1 s"
proof -
  have "X (s\<lparr>mem := (mem s)(UCSR0A := v)\<rparr>) = X s" by (simp add: X_def)
  with assms handler_events_eq[of op0 op1 "s\<lparr>mem := (mem s)(UCSR0A := v)\<rparr>"]
    handler_events_eq[of op0 op1 s] show ?thesis by simp
qed

lemma edges_send:
  assumes "operands_ok op0 op1"
  shows "sram (X s) \<Longrightarrow>
    \<exists>s'. edges op0 op1 n s = Some s'
      \<and> writes_to UDR0 (events s') = writes_to UDR0 (events s) @ replicate n 0x43"
proof (induction n arbitrary: s)
  case 0
  then show ?case by simp
next
  case (Suc n)
  from ISR_INT0_returns[OF assms Suc.prems] obtain s1 where
    s1: "ISR_INT0 op0 op1 s = Some s1"
      "events s1 = events s @ [Cli, Store (X s) 0xA0, Sei, Store UDR0 0x43]" "X s1 = X s"
    by blast
  have w: "writes_to UDR0 (events s1) = writes_to UDR0 (events s) @ [0x43]"
    using sram_not_io[OF Suc.prems] by (simp add: s1 writes_to_append)
  have "sram (X s1)" using Suc.prems by (simp add: s1)
  from Suc.IH[OF this] show ?case by (auto simp: s1(1) w)
qed

subsection \<open>The handler between the two statements of setLEDSequence\<close>

lemma setLEDSequence_switch_ldi: "\<exists>v. setLEDSequence_switch n s = ldi 16 v s"
  by (auto simp: setLEDSequence_switch_def)

lemma setLEDSequence_irq_handler:
  assumes "operands_ok op0 op1" and "sram (X s)"
  shows "\<exists>s'. setLEDSequence_irq (ISR_INT0 op0 op1) n s = Some s'
           \<and> mem s' PORTB = 0xA0
           \<and> events s' = events s @
               [Cli, Store (X s) 0xA0, Sei, Store UDR0 0x43, Store PORTB 0xA0]"
proof -
  obtain v where v: "setLEDSequence_switch n s = ldi 16 v s"
    using setLEDSequence_switch_ldi by blast
  have x: "X (ldi 16 v s) = X s" and e: "events (ldi 16 v s) = events s"
    by (simp_all add: X_def ldi_def)
  have "sram (X (ldi 16 v s))" using assms(2) by (simp add: x)
  from ISR_INT0_returns[OF assms(1) this]
  obtain s' where s': "ISR_INT0 op0 op1 (ldi 16 v s) = Some s'"
    "events s' = events s @ [Cli, Store (X s) 0xA0, Sei, Store UDR0 0x43]" "regs s' 16 = 0xA0"
    by (auto simp: x e)
  then show ?thesis
    by (simp add: setLEDSequence_irq_def v setLEDSequence_out_def out_def store_def
        SFR_IO_ADDR_def)
qed

lemma lightLED_irq_handler:
  assumes "operands_ok op0 op1" and "sram (X s)"
  shows "\<exists>s'. lightLED_irq (ISR_INT0 op0 op1) b s = Some s'
           \<and> mem s' PORTB = 0xA0
           \<and> events s' = events s @
               [Cli, Store (X s) 0xA0, Sei, Store UDR0 0x43, Store PORTB 0xA0]"
  using setLEDSequence_irq_handler[OF assms]
  by (simp add: lightLED_irq_def Let_def)

text \<open>With no interrupt at that point, the function is \<^verbatim>\<open>lightLED\<close> itself.\<close>

lemma lightLED_irq_no_interrupt: "lightLED_irq Some b s = Some (lightLED b s)"
  by (simp add: lightLED_irq_def lightLED_def setLEDSequence_irq_def setLEDSequence_def Let_def)

section \<open>The claims\<close>

text \<open>
  C1. For every input byte \<open>b\<close> and every machine state, a call \<^verbatim>\<open>lightLED(b)\<close> that no
  interrupt cuts in two makes one write to PORTB, and the byte written is the pattern
  that the specification's table gives for \<open>b\<close>: 0x0D for 'r', 0x0B for 'g', 0x07 for
  'b' and 0x0E for every other byte. It is one of the four patterns, it is 0x0D, 0x0B or
  0x07 only for 'r', 'g' or 'b', and the capital 'R' gives 0x0E.
\<close>

theorem C1_lightLED_writes_table_pattern:
  "writes_to PORTB (events (lightLED b s)) =
     writes_to PORTB (events s) @ [pattern_bits (spec_pattern b)]
   \<and> mem (lightLED b s) PORTB = pattern_bits (spec_pattern b)
   \<and> pattern_bits (spec_pattern b) \<in> {0x0D, 0x0B, 0x07, 0x0E}
   \<and> (pattern_bits (spec_pattern b) = 0x0D \<longleftrightarrow> b = of_char (CHR ''r''))
   \<and> (pattern_bits (spec_pattern b) = 0x0B \<longleftrightarrow> b = of_char (CHR ''g''))
   \<and> (pattern_bits (spec_pattern b) = 0x07 \<longleftrightarrow> b = of_char (CHR ''b''))
   \<and> mem (lightLED (of_char (CHR ''R'')) s) PORTB = 0x0E"
  by (simp add: lightLED_state writes_to_append spec_pattern_def)

text \<open>
  C2, at the inputs where the code breaks it. The claim is that every edge puts exactly
  one byte on the serial line, the byte 0x43, and never another byte. The handler's loop
  does not wait for the transmitter and stores its operand through X, which it has not
  set. An edge while the transmitter is busy (UDRE0 clear): the handler returns after its
  one store of 0x43 to UDR0, which the busy transmitter does not take, so this edge puts
  no byte on the line (with the transmitter ready it puts the one byte 0x43). An edge
  while X holds the address of UDR0: the loop's \<^verbatim>\<open>st X, %1\<close> stores the operand 0xA0 to
  UDR0 before the handler stores 0x43 there, so two bytes are written to the transmit
  register and the first is not 0x43.
\<close>

theorem C2_edge_without_exactly_one_0x43:
  "\<not> bit (mem busy_state UCSR0A) UDRE0
   \<and> map_option (writes_to UDR0) (handler_events 24 18 busy_state) = Some [0x43]
   \<and> handler_transmits 24 18 busy_state = Some []
   \<and> handler_transmits 24 18 ready_state = Some [0x43]
   \<and> X udr_state = UDR0
   \<and> handler_events 24 18 udr_state = Some [Cli, Store UDR0 0xA0, Sei, Store UDR0 0x43]
   \<and> map_option (writes_to UDR0) (handler_events 24 18 udr_state) = Some [0xA0, 0x43]
   \<and> handler_transmits 24 18 udr_state = Some [0xA0, 0x43]"
proof -
  have b: "handler_transmits 24 18 busy_state = Some []" "\<not> bit (mem busy_state UCSR0A) UDRE0"
    using ISR_INT0_returns[OF operands_ok_24_18 busy_state_X(2)]
    by (auto simp: handler_transmits_def busy_state_def ready_state_def)
  have r: "handler_transmits 24 18 ready_state = Some [0x43]"
    using ISR_INT0_returns[OF operands_ok_24_18 ready_state_X(2)] sram_not_io[OF ready_state_X(2)]
    by (auto simp: handler_transmits_def ready_state_def UCSR0A_def UDRE0_def)
  have x: "X udr_state = UDR0"
    by (simp add: udr_state_def ready_state_def X_def UDR0_def)
  have u: "ISR_INT0 24 18 udr_state =
      Some (sts UDR0 17 (sei (pop 24 (ldi 17 0x43 (ld_X 16 (st_X 18
        (push 24 (cli (ldi 18 0xA0 (lds 24 SREG udr_state))))))))))"
    apply (simp add: ISR_INT0_def Let_def)
    apply (subst USART_Transmit_exit)
     apply (simp_all add: ldi_def lds_def cli_def push_def device_defs)
    done
  have e: "handler_events 24 18 udr_state = Some [Cli, Store UDR0 0xA0, Sei, Store UDR0 0x43]"
    by (simp add: handler_events_def u) (simp add: instr_defs udr_state_def ready_state_def device_defs)
  have t: "handler_transmits 24 18 udr_state = Some [0xA0, 0x43]"
    by (simp add: handler_transmits_def u) (simp add: instr_defs udr_state_def ready_state_def device_defs)
  from b r x e t handler_events_eq[OF operands_ok_24_18 busy_state_X(2)]
    sram_not_io[OF busy_state_X(2)]
  show ?thesis by simp
qed

text \<open>
  C3, at the input where the code breaks it. After startup the byte 'r' is rendered:
  \<^verbatim>\<open>setLEDSequence(1)\<close> has loaded 0x0D into r16, and before its \<^verbatim>\<open>out\<close> an edge arrives
  on the input pin. The handler loads r16 with what it has just stored through X, the
  number 0xA0, and does not restore it; back in the foreground, the \<^verbatim>\<open>out\<close> writes 0xA0
  to PORTB. The port has held the four startup patterns and now holds 0xA0, which is
  none of the four patterns: all of its bits 0 to 3 are low.
\<close>

theorem C3_interrupted_render_writes_0xA0:
  "map_option (\<lambda>s'. writes_to PORTB (events s'))
      (lightLED_irq (ISR_INT0 24 18) (of_char (CHR ''r'')) (setup_sketch ready_state))
     = Some [0x0D, 0x0B, 0x07, 0x0E, 0xA0]
   \<and> map_option (\<lambda>s'. mem s' PORTB)
      (lightLED_irq (ISR_INT0 24 18) (of_char (CHR ''r'')) (setup_sketch ready_state))
     = Some 0xA0
   \<and> (0xA0 :: byte) \<notin> {0x0D, 0x0B, 0x07, 0x0E}
   \<and> \<not> one_led_lit 0xA0
   \<and> filter (\<lambda>i. \<not> bit (0xA0 :: byte) i) [0, 1, 2, 3] = [0, 1, 2, 3]"
proof -
  have h: "sram (X (setup_sketch ready_state))"
    by (simp add: setup_sketch_port ready_state_X(2))
  have e: "writes_to PORTB (events (setup_sketch ready_state)) = [0x0D, 0x0B, 0x07, 0x0E]"
    by (simp add: setup_sketch_port) (simp add: ready_state_def)
  from lightLED_irq_handler[OF operands_ok_24_18 h, of "of_char (CHR ''r'')"] sram_not_io[OF h] e
  show ?thesis
    by (auto simp: writes_to_append one_led_lit_def device_defs)
qed




text \<open>
  C5, at the input where the code breaks it. The transmitter is busy: UCSR0A holds 0,
  its flag UDRE0 is clear. The handler returns all the same, having written 0x43 to
  UDR0, and the flag is still clear when it returns: the handler has not waited for it.
  It does exactly what it does when the flag is set.
\<close>

theorem C5_handler_writes_while_flag_clear:
  "\<not> bit (mem busy_state UCSR0A) UDRE0
   \<and> map_option (\<lambda>s'. writes_to UDR0 (events s')) (ISR_INT0 24 18 busy_state) = Some [0x43]
   \<and> map_option (\<lambda>s'. bit (mem s' UCSR0A) UDRE0) (ISR_INT0 24 18 busy_state) = Some False
   \<and> bit (mem ready_state UCSR0A) UDRE0
   \<and> handler_events 24 18 busy_state = handler_events 24 18 ready_state"
proof -
  have e: "events busy_state = []" "mem busy_state UCSR0A = 0" "mem ready_state UCSR0A = 0x20"
    by (simp_all add: ready_state_def busy_state_def)
  from ISR_INT0_returns[OF operands_ok_24_18 busy_state_X(2)] sram_not_io[OF busy_state_X(2)]
    handler_events_eq[OF operands_ok_24_18 busy_state_X(2)]
    handler_events_eq[OF operands_ok_24_18 ready_state_X(2)]
  show ?thesis
    by (auto simp: writes_to_append e busy_state_X(1) ready_state_X(1) UDRE0_def)
qed

text \<open>
  C6. For a byte \<open>b\<close> other than 'r', 'g' and 'b', \<^verbatim>\<open>lightLED(b)\<close> is a function that
  returns (there is no error result), and all it changes in the machine is r16 and
  PORTB, which both get 0x0E, with the one store to PORTB added to the history: nothing
  is written to the transmit register UDR0, and the receive buffer, the stack and the
  rest of the data space are as before.
\<close>

theorem C6_unrecognized_byte_sets_NONE_only:
  assumes "b \<noteq> of_char (CHR ''r'')" and "b \<noteq> of_char (CHR ''g'')"
    and "b \<noteq> of_char (CHR ''b'')"
  shows "lightLED b s =
           s\<lparr>regs := (regs s)(16 := 0x0E), mem := (mem s)(PORTB := 0x0E),
             events := events s @ [Store PORTB 0x0E]\<rparr>
       \<and> writes_to UDR0 (events (lightLED b s)) = writes_to UDR0 (events s)
       \<and> writes_to PORTB (events (lightLED b s)) = writes_to PORTB (events s) @ [0x0E]"
  using assms by (simp add: lightLED_state spec_pattern_def writes_to_append device_defs)

theorem C6_unrecognized_byte_sets_NONE_only_witness:
  "(of_char (CHR ''x'') :: byte) \<noteq> of_char (CHR ''r'')
   \<and> (of_char (CHR ''x'') :: byte) \<noteq> of_char (CHR ''g'')
   \<and> (of_char (CHR ''x'') :: byte) \<noteq> of_char (CHR ''b'')
   \<and> mem (lightLED (of_char (CHR ''x'')) ready_state) PORTB = 0x0E
   \<and> events (lightLED (of_char (CHR ''x'')) ready_state) = [Store PORTB 0x0E]
   \<and> writes_to UDR0 (events (lightLED (of_char (CHR ''x'')) ready_state)) = []"
proof -
  have h: "(of_char (CHR ''x'') :: byte) \<noteq> of_char (CHR ''r'')"
    "(of_char (CHR ''x'') :: byte) \<noteq> of_char (CHR ''g'')"
    "(of_char (CHR ''x'') :: byte) \<noteq> of_char (CHR ''b'')" by simp_all
  from C6_unrecognized_byte_sets_NONE_only[OF h, of ready_state] h show ?thesis
    by (simp add: ready_state_def device_defs)
qed

text \<open>
  C7. The pattern that \<^verbatim>\<open>lightLED(b)\<close> leaves on PORTB is the same from any two machine
  states; rendering \<open>b\<close> twice in a row leaves what rendering it once leaves; whatever
  byte \<open>c\<close> was rendered before does not matter. The same holds through \<^verbatim>\<open>loop\<close>, which
  keeps the last byte in the global \<^verbatim>\<open>_receivedByte\<close>: the pattern for the byte at the
  head of the receive buffer is the same from any two states.
\<close>

theorem C7_render_stateless_idempotent:
  "mem (lightLED b s) PORTB = mem (lightLED b s') PORTB
   \<and> mem (lightLED b (lightLED b s)) PORTB = mem (lightLED b s) PORTB
   \<and> mem (lightLED b (lightLED c s)) PORTB = mem (lightLED b s) PORTB
   \<and> mem (loop (s\<lparr>rx := b # bs\<rparr>)) PORTB = mem (loop (s'\<lparr>rx := b # bs'\<rparr>)) PORTB
   \<and> mem (loop (loop (s\<lparr>rx := b # b # bs\<rparr>))) PORTB = mem (loop (s\<lparr>rx := b # b # bs\<rparr>)) PORTB"
  by (simp add: lightLED_state loop_state)

text \<open>
  C8. From any state, with the byte 'r' in the receive buffer, one pass of \<^verbatim>\<open>loop\<close> or
  more adds exactly the write of RED to the writes to PORTB; with 'g', 'b', 'x' in the
  buffer, three passes or more add exactly the writes of GREEN, BLUE and NONE, in this
  order. (No edge arrives in these scenarios.)
\<close>

theorem C8_end_to_end_scenarios:
  "writes_to PORTB (events ((loop ^^ (1 + k)) (s\<lparr>rx := [of_char (CHR ''r'')]\<rparr>)))
     = writes_to PORTB (events s) @ [pattern_bits RED]
   \<and> writes_to PORTB (events ((loop ^^ (3 + k))
        (s\<lparr>rx := [of_char (CHR ''g''), of_char (CHR ''b''), of_char (CHR ''x'')]\<rparr>)))
     = writes_to PORTB (events s) @ [pattern_bits GREEN, pattern_bits BLUE, pattern_bits NONE]"
  using loop_iter_writes[of "s\<lparr>rx := [of_char (CHR ''r'')]\<rparr>" "1 + k"]
    loop_iter_writes[of "s\<lparr>rx := [of_char (CHR ''g''), of_char (CHR ''b''),
      of_char (CHR ''x'')]\<rparr>" "3 + k"]
  by (simp add: spec_pattern_def)

text \<open>
  C9. From any state, when the startup code has run (with no edge during it), PORTB
  holds the NONE pattern 0x0E: the self-test has written RED, GREEN, BLUE and NONE, in
  this order, and nothing after. With an empty receive buffer, any number of passes of
  \<^verbatim>\<open>loop\<close> leaves NONE on the port.
\<close>

theorem C9_port_is_NONE_after_startup:
  "mem (setup_sketch s) PORTB = pattern_bits NONE
   \<and> writes_to PORTB (events (setup_sketch s))
       = writes_to PORTB (events s) @
           [pattern_bits RED, pattern_bits GREEN, pattern_bits BLUE, pattern_bits NONE]
   \<and> mem ((loop ^^ k) (setup_sketch (s\<lparr>rx := []\<rparr>))) PORTB = pattern_bits NONE"
proof -
  have "rx (setup_sketch (s\<lparr>rx := []\<rparr>)) = []" by (simp add: setup_sketch_port)
  then have "(loop ^^ k) (setup_sketch (s\<lparr>rx := []\<rparr>)) = setup_sketch (s\<lparr>rx := []\<rparr>)"
    by (rule loop_idle)
  then show ?thesis by (simp add: setup_sketch_port)
qed

text \<open>
  C10. Every call of \<^verbatim>\<open>setLEDSequence\<close> stores a whole byte to PORTB: the bits 4 to 7 of
  the port are 0 after it, whatever the argument and whatever the port held before (all
  bits set, say), and the new content does not depend on the old one.
\<close>

theorem C10_setLEDSequence_replaces_whole_port:
  "mem (setLEDSequence n s) PORTB AND 0xF0 = 0
   \<and> drop_bit 4 (mem (setLEDSequence n s) PORTB) = 0
   \<and> mem (setLEDSequence n (s\<lparr>mem := (mem s)(PORTB := v)\<rparr>)) PORTB
       = mem (setLEDSequence n s) PORTB
   \<and> mem (setLEDSequence n (s\<lparr>mem := (mem s)(PORTB := 0xFF)\<rparr>)) PORTB AND 0xF0 = 0"
  by (simp add: setLEDSequence_def setLEDSequence_switch_def setLEDSequence_out_state)

end
